theory Spec2Isabelle
  imports Complex_Main "HOL-Library.AList" "HOL-Library.Multiset"
begin

section \<open>Data model of main.py\<close>

text \<open>
  Python floats are modelled as exact rationals: the order, the arithmetic and the
  rounding below are those of the real numbers, so overflow, underflow, infinities and
  NaN of IEEE doubles are outside this model.
\<close>

type_synonym pyfloat = rat

text \<open>
  The exceptions of the handlers. \<open>HTTPException status detail\<close> is raised by the code
  itself; \<open>ValidationError\<close> is raised by the constructor of \<open>Patient\<close>;
  \<open>ZeroDivisionError\<close> by the division in \<open>bmi\<close>.
\<close>

datatype error = HTTPException nat string | ValidationError | ZeroDivisionError

text \<open>
  A JSON object of patients.json (and every keyword dictionary built from one): each of
  the nine keys the program reads or writes is absent (\<open>None\<close>) or carries a value of
  its JSON type. In the dictionary that \<open>update_patient\<close> hands to \<open>Patient\<close>,
  \<open>None\<close> also stands for a key carrying null: the constructor rejects both.
\<close>

record pdict =
  d_id :: "string option"
  d_name :: "string option"
  d_city :: "string option"
  d_age :: "int option"
  d_gender :: "string option"
  d_height :: "pyfloat option"
  d_weight :: "pyfloat option"
  d_bmi :: "pyfloat option"
  d_verdict :: "string option"

text \<open>class Patient(BaseModel): the seven declared fields (\<open>pid\<close> is the field id).\<close>

record Patient =
  pid :: string
  name :: string
  city :: string
  age :: int
  gender :: string
  height :: pyfloat
  weight :: pyfloat

text \<open>
  class UpdatePatient(BaseModel): every field is Optional with default None. A field is
  \<open>Unset\<close> when the request body does not mention it, and \<open>Given v\<close> when it does,
  where \<open>v = None\<close> is an explicit null.
\<close>

datatype 'a upd = Unset | Given "'a option"

record UpdatePatient =
  u_name :: "string upd"
  u_city :: "string upd"
  u_age :: "int upd"
  u_gender :: "string upd"
  u_height :: "pyfloat upd"
  u_weight :: "pyfloat upd"

text \<open>
  The loaded collection is a Python dict in insertion order: an association list from id
  to the stored object. The state is the content of patients.json together with the
  number of times the file has been written.
\<close>

type_synonym store = "(string \<times> pdict) list"

record state =
  patients_json :: store
  writes :: nat

datatype response = JSONResponse nat "(string \<times> string) list"

section \<open>Computed fields\<close>

text \<open>
  Python's \<open>round(x, ndigits)\<close> on a float: the nearest multiple of \<open>10^-ndigits\<close>,
  a tie going to the even neighbour.
\<close>

definition round_half_even :: "rat \<Rightarrow> int" where
  "round_half_even x =
     (let f = \<lfloor>x\<rfloor>; d = x - of_int f
      in if d < 1 / 2 then f
         else if 1 / 2 < d then f + 1
         else if even f then f else f + 1)"

definition py_round :: "pyfloat \<Rightarrow> nat \<Rightarrow> pyfloat" where
  "py_round x ndigits = of_int (round_half_even (x * 10 ^ ndigits)) / 10 ^ ndigits"

definition bmi :: "Patient \<Rightarrow> error + pyfloat" where
  "bmi self =
     (if (height self)\<^sup>2 = 0 then Inl ZeroDivisionError
      else Inr (py_round (weight self / (height self)\<^sup>2) 2))"

definition verdict :: "Patient \<Rightarrow> error + string" where
  "verdict self =
     (case bmi self of
        Inl e \<Rightarrow> Inl e
      | Inr b \<Rightarrow>
          Inr (if b < 185 / 10 then ''Underweight''
               else if b < 25 then ''Normal weight''
               else if b < 30 then ''Overweight''
               else ''Obese''))"

section \<open>Validation and serialisation\<close>

text \<open>A required field: the key is present and its value meets the constraint.\<close>

definition field_ok :: "('a \<Rightarrow> bool) \<Rightarrow> 'a option \<Rightarrow> bool" where
  "field_ok P v = (case v of None \<Rightarrow> False | Some x \<Rightarrow> P x)"

text \<open>
  \<open>Patient(**kwargs)\<close>: all seven fields are required; age has gt=0 and le=120, gender
  is one of three literals, height and weight have gt=0. Other keys are ignored.
\<close>

definition Patient_init :: "pdict \<Rightarrow> error + Patient" where
  "Patient_init kw =
     (if field_ok (\<lambda>_. True) (d_id kw) \<and> field_ok (\<lambda>_. True) (d_name kw)
         \<and> field_ok (\<lambda>_. True) (d_city kw)
         \<and> field_ok (\<lambda>a. 0 < a \<and> a \<le> 120) (d_age kw)
         \<and> field_ok (\<lambda>g. g \<in> set [''Male'', ''Female'', ''Other'']) (d_gender kw)
         \<and> field_ok (\<lambda>h. 0 < h) (d_height kw)
         \<and> field_ok (\<lambda>w. 0 < w) (d_weight kw)
      then Inr \<lparr>pid = the (d_id kw), name = the (d_name kw), city = the (d_city kw),
                age = the (d_age kw), gender = the (d_gender kw),
                height = the (d_height kw), weight = the (d_weight kw)\<rparr>
      else Inl ValidationError)"

text \<open>
  \<open>patient.model_dump(exclude="id")\<close>: the declared fields and the two computed fields,
  without the key id. Evaluating a computed field may raise.
\<close>

definition model_dump_exclude_id :: "Patient \<Rightarrow> error + pdict" where
  "model_dump_exclude_id p =
     (case bmi p of
        Inl e \<Rightarrow> Inl e
      | Inr b \<Rightarrow>
          (case verdict p of
             Inl e \<Rightarrow> Inl e
           | Inr v \<Rightarrow>
               Inr \<lparr>d_id = None, d_name = Some (name p), d_city = Some (city p),
                    d_age = Some (age p), d_gender = Some (gender p),
                    d_height = Some (height p), d_weight = Some (weight p),
                    d_bmi = Some b, d_verdict = Some v\<rparr>))"

text \<open>
  \<open>patient_data[key] = updated_data[key]\<close> for a key of
  \<open>patient_update.model_dump(exclude_unset=True)\<close>: an unset field leaves the entry as
  it is, a given one overwrites it (an explicit null leaves no usable value).
\<close>

definition assign :: "'a option \<Rightarrow> 'a upd \<Rightarrow> 'a option" where
  "assign old u = (case u of Unset \<Rightarrow> old | Given v \<Rightarrow> v)"

definition apply_updates :: "pdict \<Rightarrow> UpdatePatient \<Rightarrow> pdict" where
  "apply_updates patient_data patient_update =
     patient_data
       \<lparr>d_name := assign (d_name patient_data) (u_name patient_update),
        d_city := assign (d_city patient_data) (u_city patient_update),
        d_age := assign (d_age patient_data) (u_age patient_update),
        d_gender := assign (d_gender patient_data) (u_gender patient_update),
        d_height := assign (d_height patient_data) (u_height patient_update),
        d_weight := assign (d_weight patient_data) (u_weight patient_update)\<rparr>"

section \<open>Record store\<close>

definition get_data :: "state \<Rightarrow> store" where
  "get_data st = patients_json st"

definition save_data :: "store \<Rightarrow> state \<Rightarrow> state" where
  "save_data data st = st\<lparr>patients_json := data, writes := writes st + 1\<rparr>"

section \<open>Request handlers\<close>

definition hello :: "(string \<times> string) list" where
  "hello = [(''massage'', ''Patient Management System API'')]"

definition about :: "(string \<times> string) list" where
  "about = [(''massage'', ''A fully functional API for managing patient records.'')]"

definition view :: "state \<Rightarrow> store" where
  "view st = get_data st"

definition view_patient :: "state \<Rightarrow> string \<Rightarrow> error + pdict" where
  "view_patient st patient_id =
     (let data = get_data st
      in case map_of data patient_id of
           Some r \<Rightarrow> Inr r
         | None \<Rightarrow> Inl (HTTPException 404 ''Patient not found''))"

text \<open>
  \<open>sorted(xs, key=f, reverse=r)\<close>: a stable sort; with \<open>reverse\<close> the list is sorted in
  descending order and elements with equal keys still keep their original order.
\<close>

definition sorted_py :: "('a \<Rightarrow> 'k::linorder) \<Rightarrow> bool \<Rightarrow> 'a list \<Rightarrow> 'a list" where
  "sorted_py f reverse xs = (if reverse then rev (sort_key f (rev xs)) else sort_key f xs)"

text \<open>\<open>x.get(key, 0)\<close> for the three keys that pass the check of \<open>sort_by\<close>.\<close>

definition get_or_0 :: "pdict \<Rightarrow> string \<Rightarrow> pyfloat" where
  "get_or_0 x key =
     (if key = ''height'' then (case d_height x of None \<Rightarrow> 0 | Some v \<Rightarrow> v)
      else if key = ''weight'' then (case d_weight x of None \<Rightarrow> 0 | Some v \<Rightarrow> v)
      else if key = ''bmi'' then (case d_bmi x of None \<Rightarrow> 0 | Some v \<Rightarrow> v)
      else 0)"

definition valid_fields :: "string list" where
  "valid_fields = [''height'', ''weight'', ''bmi'']"

definition sort_patient :: "state \<Rightarrow> string \<Rightarrow> string \<Rightarrow> error + pdict list" where
  "sort_patient st sort_by order =
     (if sort_by \<notin> set valid_fields then Inl (HTTPException 404 ''The input is not valid'')
      else if order \<notin> set [''asc'', ''desc''] then Inl (HTTPException 404 ''The input is not valid'')
      else
        (let data = get_data st;
             sort_order = (if order = ''desc'' then True else False)
         in Inr (sorted_py (\<lambda>x. get_or_0 x sort_by) sort_order (map snd data))))"

definition create_patient :: "state \<Rightarrow> Patient \<Rightarrow> (error + response) \<times> state" where
  "create_patient st patient =
     (let data = get_data st
      in if map_of data (pid patient) \<noteq> None
         then (Inl (HTTPException 401 ''The patient is already exists''), st)
         else
           (case model_dump_exclude_id patient of
              Inl e \<Rightarrow> (Inl e, st)
            | Inr d \<Rightarrow>
                (Inr (JSONResponse 201 [(''massage'', ''Patient created successfully'')]),
                 save_data (AList.update (pid patient) d data) st)))"

definition update_patient ::
  "state \<Rightarrow> string \<Rightarrow> UpdatePatient \<Rightarrow> (error + response) \<times> state" where
  "update_patient st patient_id patient_update =
     (let data = get_data st
      in case map_of data patient_id of
           None \<Rightarrow> (Inl (HTTPException 404 ''Patient not found''), st)
         | Some stored \<Rightarrow>
             (let patient_data = apply_updates stored patient_update;
                  patient_data = patient_data\<lparr>d_id := Some patient_id\<rparr>;
                  patient_data = patient_data\<lparr>d_bmi := None\<rparr>;
                  patient_data = patient_data\<lparr>d_verdict := None\<rparr>
              in case Patient_init patient_data of
                   Inl e \<Rightarrow> (Inl e, st)
                 | Inr patient_obj \<Rightarrow>
                     (case model_dump_exclude_id patient_obj of
                        Inl e \<Rightarrow> (Inl e, st)
                      | Inr dumped \<Rightarrow>
                          (Inr (JSONResponse 200 [(''massage'', ''Patient updated successfully'')]),
                           save_data (AList.update patient_id dumped data) st))))"

definition delete_patient :: "state \<Rightarrow> string \<Rightarrow> (error + response) \<times> state" where
  "delete_patient st patient_id =
     (let data = get_data st
      in if map_of data patient_id = None
         then (Inl (HTTPException 404 ''Patient not found''), st)
         else
           (Inr (JSONResponse 200 [(''massage'', ''Patient deleted successfully'')]),
            save_data (AList.delete patient_id data) st))"

section \<open>Example data\<close>

text \<open>The patient of the scenario: P001, 1.75 m, 70 kg.\<close>

definition asha :: Patient where
  "asha = \<lparr>pid = ''P001'', name = ''Asha'', city = ''Pune'', age = 30, gender = ''Male'',
           height = 7 / 4, weight = 70\<rparr>"

definition asha_body :: pdict where
  "asha_body = \<lparr>d_id = Some ''P001'', d_name = Some ''Asha'', d_city = Some ''Pune'',
                d_age = Some 30, d_gender = Some ''Male'', d_height = Some (7 / 4),
                d_weight = Some 70, d_bmi = None, d_verdict = None\<rparr>"

definition asha_stored :: pdict where
  "asha_stored = \<lparr>d_id = None, d_name = Some ''Asha'', d_city = Some ''Pune'',
                  d_age = Some 30, d_gender = Some ''Male'', d_height = Some (7 / 4),
                  d_weight = Some 70, d_bmi = Some (2286 / 100),
                  d_verdict = Some ''Normal weight''\<rparr>"

definition empty_state :: state where
  "empty_state = \<lparr>patients_json = [], writes = 0\<rparr>"

definition asha_state :: state where
  "asha_state = \<lparr>patients_json = [(''P001'', asha_stored)], writes = 1\<rparr>"

text \<open>The update of the scenario: only weight, 95 kg; and the record it leaves.\<close>

definition weight_95 :: UpdatePatient where
  "weight_95 = \<lparr>u_name = Unset, u_city = Unset, u_age = Unset, u_gender = Unset,
                 u_height = Unset, u_weight = Given (Some 95)\<rparr>"

definition asha_95_stored :: pdict where
  "asha_95_stored = \<lparr>d_id = None, d_name = Some ''Asha'', d_city = Some ''Pune'',
                     d_age = Some 30, d_gender = Some ''Male'', d_height = Some (7 / 4),
                     d_weight = Some 95, d_bmi = Some (3102 / 100),
                     d_verdict = Some ''Obese''\<rparr>"

text \<open>A request body that supplies no field.\<close>

definition empty_body :: UpdatePatient where
  "empty_body = \<lparr>u_name = Unset, u_city = Unset, u_age = Unset, u_gender = Unset,
                  u_height = Unset, u_weight = Unset\<rparr>"

text \<open>A file written by hand: the six input fields only, no bmi and no verdict.\<close>

definition seed_stored :: pdict where
  "seed_stored = \<lparr>d_id = None, d_name = Some ''Asha'', d_city = Some ''Pune'',
                  d_age = Some 30, d_gender = Some ''Male'', d_height = Some (7 / 4),
                  d_weight = Some 70, d_bmi = None, d_verdict = None\<rparr>"

definition seed_state :: state where
  "seed_state = \<lparr>patients_json = [(''P001'', seed_stored)], writes = 0\<rparr>"

text \<open>
  A collection for sorting: P001 and P003 have the same height, P002 has no height,
  P004 is the shortest of those that have one.
\<close>

definition rec_h :: "string \<Rightarrow> pyfloat option \<Rightarrow> pdict" where
  "rec_h n h = \<lparr>d_id = None, d_name = Some n, d_city = None, d_age = None,
                d_gender = None, d_height = h, d_weight = None, d_bmi = None,
                d_verdict = None\<rparr>"

definition sort_state :: state where
  "sort_state =
     \<lparr>patients_json =
        [(''P001'', rec_h ''A'' (Some (7 / 4))), (''P002'', rec_h ''B'' None),
         (''P003'', rec_h ''C'' (Some (7 / 4))), (''P004'', rec_h ''D'' (Some (3 / 2)))],
      writes = 0\<rparr>"

section \<open>The invariant of the stored values\<close>

text \<open>No stored object carries the key id.\<close>

definition no_id_stored :: "store \<Rightarrow> bool" where
  "no_id_stored data = list_all (\<lambda>(k, r). d_id r = None) data"

section \<open>Facts about validation, serialisation and the example data\<close>

lemma Patient_init_eq_Inr:
  "Patient_init kw = Inr p \<longleftrightarrow>
     d_id kw = Some (pid p) \<and> d_name kw = Some (name p) \<and> d_city kw = Some (city p)
     \<and> d_age kw = Some (age p) \<and> d_gender kw = Some (gender p)
     \<and> d_height kw = Some (height p) \<and> d_weight kw = Some (weight p)
     \<and> 0 < age p \<and> age p \<le> 120 \<and> gender p \<in> set [''Male'', ''Female'', ''Other'']
     \<and> 0 < height p \<and> 0 < weight p"
  by (cases p) (auto simp: Patient_init_def field_ok_def split: option.splits)

lemma model_dump_positive_height:
  assumes "0 < height p"
  shows "\<exists>b v. bmi p = Inr b \<and> verdict p = Inr v
           \<and> model_dump_exclude_id p =
               Inr \<lparr>d_id = None, d_name = Some (name p), d_city = Some (city p),
                    d_age = Some (age p), d_gender = Some (gender p),
                    d_height = Some (height p), d_weight = Some (weight p),
                    d_bmi = Some b, d_verdict = Some v\<rparr>"
  using assms by (simp add: model_dump_exclude_id_def bmi_def verdict_def)

lemma model_dump_eq_Inr:
  "model_dump_exclude_id p = Inr r \<Longrightarrow>
     \<exists>b v. bmi p = Inr b \<and> verdict p = Inr v
       \<and> r = \<lparr>d_id = None, d_name = Some (name p), d_city = Some (city p),
              d_age = Some (age p), d_gender = Some (gender p),
              d_height = Some (height p), d_weight = Some (weight p),
              d_bmi = Some b, d_verdict = Some v\<rparr>"
  by (auto simp: model_dump_exclude_id_def split: sum.splits)


lemma bmi_asha: "bmi asha = Inr (2286 / 100)"
  by code_simp

lemma verdict_asha: "verdict asha = Inr ''Normal weight''"
  by code_simp

lemma model_dump_asha: "model_dump_exclude_id asha = Inr asha_stored"
  by (simp add: model_dump_exclude_id_def bmi_asha verdict_asha asha_stored_def) (simp add: asha_def)

lemma Patient_init_asha: "Patient_init asha_body = Inr asha"
  by (simp add: Patient_init_eq_Inr asha_body_def asha_def)

lemma create_asha: "create_patient empty_state asha = (Inr (JSONResponse 201 [(''massage'', ''Patient created successfully'')]), asha_state)"
  by (simp add: create_patient_def get_data_def save_data_def empty_state_def model_dump_asha asha_state_def) (simp add: asha_def)

section \<open>Computed fields: bmi and verdict\<close>

lemma bmi_positive_height:
  "0 < height p \<Longrightarrow> bmi p = Inr (py_round (weight p / (height p)\<^sup>2) 2)"
  by (simp add: bmi_def)



text \<open>The boundary values themselves: a bmi of exactly 18.5, 25 and 30.\<close>

lemma verdict_at_boundaries:
  "bmi (asha\<lparr>height := 1, weight := 185 / 10\<rparr>) = Inr (185 / 10)
   \<and> verdict (asha\<lparr>height := 1, weight := 185 / 10\<rparr>) = Inr ''Normal weight''
   \<and> bmi (asha\<lparr>height := 1, weight := 25\<rparr>) = Inr 25
   \<and> verdict (asha\<lparr>height := 1, weight := 25\<rparr>) = Inr ''Overweight''
   \<and> bmi (asha\<lparr>height := 1, weight := 30\<rparr>) = Inr 30
   \<and> verdict (asha\<lparr>height := 1, weight := 30\<rparr>) = Inr ''Obese''"
  by code_simp

section \<open>Create\<close>




section \<open>Sort\<close>

lemma sorted_py_mset: "mset (sorted_py f r xs) = mset xs"
  by (simp add: sorted_py_def)

lemma sorted_py_stable:
  "filter (\<lambda>y. f y = k) (sorted_py f r xs) = filter (\<lambda>y. f y = k) xs"
  by (simp add: sorted_py_def sort_key_stable rev_filter [symmetric])

lemma sorted_py_ascending: "sorted (map f (sorted_py f False xs))"
  by (simp add: sorted_py_def)

lemma sorted_py_descending: "sorted_wrt (\<lambda>a b. b \<le> a) (map f (sorted_py f True xs))"
proof -
  have "sorted (map f (sort_key f (rev xs)))"
    by simp
  then have "sorted_wrt (\<lambda>a b. b \<le> a) (rev (map f (sort_key f (rev xs))))"
    by (simp add: sorted_wrt_rev)
  then show ?thesis
    by (simp add: sorted_py_def rev_map)
qed

text \<open>
  C4. For every collection: with sort_by among height, weight, bmi and order among asc,
  desc, the sort handler returns all stored records, ordered by the named field
  (non-decreasing for asc, non-increasing for desc), a record without the field counting
  as 0, and records with equal keys keep the order of the collection; with sort_by or
  order outside its set it fails with the 404 "The input is not valid" and returns no
  data.
\<close>

theorem sort_patient_ordered_stable:
  "(sort_by \<notin> set [''height'', ''weight'', ''bmi''] \<or> order \<notin> set [''asc'', ''desc'']
      \<longrightarrow> sort_patient st sort_by order = Inl (HTTPException 404 ''The input is not valid''))
   \<and> (sort_by \<in> set [''height'', ''weight'', ''bmi''] \<and> order \<in> set [''asc'', ''desc'']
      \<longrightarrow> (\<exists>ys. sort_patient st sort_by order = Inr ys
             \<and> mset ys = mset (map snd (patients_json st))
             \<and> (order = ''asc'' \<longrightarrow> sorted (map (\<lambda>x. get_or_0 x sort_by) ys))
             \<and> (order = ''desc'' \<longrightarrow>
                  sorted_wrt (\<lambda>a b. b \<le> a) (map (\<lambda>x. get_or_0 x sort_by) ys))
             \<and> (\<forall>k. filter (\<lambda>x. get_or_0 x sort_by = k) ys
                    = filter (\<lambda>x. get_or_0 x sort_by = k) (map snd (patients_json st)))))
   \<and> (\<forall>x. get_or_0 x ''height'' = (case d_height x of None \<Rightarrow> 0 | Some v \<Rightarrow> v))
   \<and> (\<forall>x. get_or_0 x ''weight'' = (case d_weight x of None \<Rightarrow> 0 | Some v \<Rightarrow> v))
   \<and> (\<forall>x. get_or_0 x ''bmi'' = (case d_bmi x of None \<Rightarrow> 0 | Some v \<Rightarrow> v))"
proof (intro conjI impI allI)
  assume "sort_by \<notin> set [''height'', ''weight'', ''bmi''] \<or> order \<notin> set [''asc'', ''desc'']"
  then show "sort_patient st sort_by order = Inl (HTTPException 404 ''The input is not valid'')"
    by (auto simp: sort_patient_def valid_fields_def)
next
  assume ok: "sort_by \<in> set [''height'', ''weight'', ''bmi''] \<and> order \<in> set [''asc'', ''desc'']"
  let ?key = "\<lambda>x. get_or_0 x sort_by"
  let ?ys = "sorted_py ?key (order = ''desc'') (map snd (patients_json st))"
  from ok have res: "sort_patient st sort_by order = Inr ?ys"
    by (auto simp: sort_patient_def valid_fields_def get_data_def)
  have asc: "order = ''asc'' \<longrightarrow> sorted (map ?key ?ys)"
    using sorted_py_ascending [of ?key] by auto
  have desc: "order = ''desc'' \<longrightarrow> sorted_wrt (\<lambda>a b. b \<le> a) (map ?key ?ys)"
    using sorted_py_descending [of ?key] by auto
  have stable: "\<forall>k. filter (\<lambda>x. ?key x = k) ?ys
                  = filter (\<lambda>x. ?key x = k) (map snd (patients_json st))"
    by (simp add: sorted_py_stable)
  from res asc desc stable sorted_py_mset [of ?key "order = ''desc''"]
  show "\<exists>ys. sort_patient st sort_by order = Inr ys
             \<and> mset ys = mset (map snd (patients_json st))
             \<and> (order = ''asc'' \<longrightarrow> sorted (map ?key ys))
             \<and> (order = ''desc'' \<longrightarrow> sorted_wrt (\<lambda>a b. b \<le> a) (map ?key ys))
             \<and> (\<forall>k. filter (\<lambda>x. ?key x = k) ys
                    = filter (\<lambda>x. ?key x = k) (map snd (patients_json st)))"
    by blast
qed (simp_all add: get_or_0_def)

lemma sort_state_desc:
  "sort_patient sort_state ''height'' ''desc'' =
     Inr [rec_h ''A'' (Some (7 / 4)), rec_h ''C'' (Some (7 / 4)),
          rec_h ''D'' (Some (3 / 2)), rec_h ''B'' None]"
  by (simp add: sort_patient_def valid_fields_def get_data_def sort_state_def sorted_py_def
      get_or_0_def rec_h_def)

lemma sort_state_asc:
  "sort_patient sort_state ''height'' ''asc'' =
     Inr [rec_h ''B'' None, rec_h ''D'' (Some (3 / 2)),
          rec_h ''A'' (Some (7 / 4)), rec_h ''C'' (Some (7 / 4))]"
  by (simp add: sort_patient_def valid_fields_def get_data_def sort_state_def sorted_py_def
      get_or_0_def rec_h_def)

theorem sort_patient_ordered_stable_witness:
  "sort_patient sort_state ''height'' ''desc'' =
     Inr [rec_h ''A'' (Some (7 / 4)), rec_h ''C'' (Some (7 / 4)),
          rec_h ''D'' (Some (3 / 2)), rec_h ''B'' None]
   \<and> sorted_wrt (\<lambda>a b. b \<le> a)
        (map (\<lambda>x. get_or_0 x ''height'')
           [rec_h ''A'' (Some (7 / 4)), rec_h ''C'' (Some (7 / 4)),
            rec_h ''D'' (Some (3 / 2)), rec_h ''B'' None])
   \<and> get_or_0 (rec_h ''B'' None) ''height'' = 0
   \<and> sort_patient sort_state ''invalid'' ''asc'' = Inl (HTTPException 404 ''The input is not valid'')
   \<and> sort_patient sort_state ''bmi'' ''up'' = Inl (HTTPException 404 ''The input is not valid'')"
proof -
  note inst = sort_patient_ordered_stable [of "''height''" "''desc''" sort_state]
  have "''height'' \<in> set [''height'', ''weight'', ''bmi''] \<and> ''desc'' \<in> set [''asc'', ''desc'']"
    by simp
  with inst obtain ys where
    ys: "sort_patient sort_state ''height'' ''desc'' = Inr ys" and
    desc: "sorted_wrt (\<lambda>a b. b \<le> a) (map (\<lambda>x. get_or_0 x ''height'') ys)"
    by blast
  from ys have ys_eq: "ys = [rec_h ''A'' (Some (7 / 4)), rec_h ''C'' (Some (7 / 4)),
          rec_h ''D'' (Some (3 / 2)), rec_h ''B'' None]"
    by (simp add: sort_state_desc)
  from inst have zero: "get_or_0 (rec_h ''B'' None) ''height'' = 0"
    by (simp add: rec_h_def)
  have "''invalid'' \<notin> set [''height'', ''weight'', ''bmi'']" and "''up'' \<notin> set [''asc'', ''desc'']"
    by simp_all
  with sort_patient_ordered_stable [of "''invalid''" "''asc''" sort_state]
    sort_patient_ordered_stable [of "''bmi''" "''up''" sort_state]
  have "sort_patient sort_state ''invalid'' ''asc'' = Inl (HTTPException 404 ''The input is not valid'')"
    and "sort_patient sort_state ''bmi'' ''up'' = Inl (HTTPException 404 ''The input is not valid'')"
    by blast+
  with ys desc zero show ?thesis
    unfolding ys_eq by blast
qed

section \<open>Delete\<close>

text \<open>
  C7. For every collection and id: deleting a present id answers 200, removes the entries
  under that id and no other (the rest keep their order), writes the collection once,
  and a get on the same id then fails with 404 "Patient not found"; deleting an absent
  id fails with that 404 and leaves the state untouched, so nothing is written.
\<close>

theorem delete_patient_removes_or_not_found:
  "(map_of (patients_json st) patient_id = None \<longrightarrow>
      delete_patient st patient_id = (Inl (HTTPException 404 ''Patient not found''), st))
   \<and> (map_of (patients_json st) patient_id \<noteq> None \<longrightarrow>
      (\<exists>st'. delete_patient st patient_id =
                (Inr (JSONResponse 200 [(''massage'', ''Patient deleted successfully'')]), st')
         \<and> patients_json st' = filter (\<lambda>(k, r). k \<noteq> patient_id) (patients_json st)
         \<and> map_of (patients_json st') = (map_of (patients_json st))(patient_id := None)
         \<and> writes st' = writes st + 1
         \<and> view_patient st' patient_id = Inl (HTTPException 404 ''Patient not found'')))"
proof (intro conjI impI)
  assume "map_of (patients_json st) patient_id = None"
  then show "delete_patient st patient_id = (Inl (HTTPException 404 ''Patient not found''), st)"
    by (simp add: delete_patient_def get_data_def)
next
  assume present: "map_of (patients_json st) patient_id \<noteq> None"
  let ?st' = "save_data (AList.delete patient_id (patients_json st)) st"
  have del: "delete_patient st patient_id =
      (Inr (JSONResponse 200 [(''massage'', ''Patient deleted successfully'')]), ?st')"
    using present by (auto simp: delete_patient_def get_data_def Let_def)
  have "AList.delete patient_id (patients_json st)
          = filter (\<lambda>(k, r). k \<noteq> patient_id) (patients_json st)"
    by (auto simp: AList.delete_eq intro: filter_cong)
  then have entries: "patients_json ?st'
          = filter (\<lambda>(k, r). k \<noteq> patient_id) (patients_json st)"
    by (simp add: save_data_def)
  have lookup: "map_of (patients_json ?st') = (map_of (patients_json st))(patient_id := None)"
    by (simp add: save_data_def AList.delete_conv')
  have wr: "writes ?st' = writes st + 1"
    by (simp add: save_data_def)
  have "view_patient ?st' patient_id = Inl (HTTPException 404 ''Patient not found'')"
    by (simp add: view_patient_def get_data_def lookup)
  with del entries lookup wr
  show "\<exists>st'. delete_patient st patient_id =
                (Inr (JSONResponse 200 [(''massage'', ''Patient deleted successfully'')]), st')
         \<and> patients_json st' = filter (\<lambda>(k, r). k \<noteq> patient_id) (patients_json st)
         \<and> map_of (patients_json st') = (map_of (patients_json st))(patient_id := None)
         \<and> writes st' = writes st + 1
         \<and> view_patient st' patient_id = Inl (HTTPException 404 ''Patient not found'')"
    by blast
qed

theorem delete_patient_removes_or_not_found_witness:
  "delete_patient asha_state ''P001'' =
     (Inr (JSONResponse 200 [(''massage'', ''Patient deleted successfully'')]),
      \<lparr>patients_json = [], writes = 2\<rparr>)
   \<and> view_patient \<lparr>patients_json = [], writes = 2\<rparr> ''P001''
       = Inl (HTTPException 404 ''Patient not found'')
   \<and> delete_patient asha_state ''P002'' =
       (Inl (HTTPException 404 ''Patient not found''), asha_state)"
proof -
  have present: "map_of (patients_json asha_state) ''P001'' \<noteq> None"
    and absent: "map_of (patients_json asha_state) ''P002'' = None"
    by (simp_all add: asha_state_def)
  from delete_patient_removes_or_not_found [of asha_state "''P001''"] present
  obtain st' where
    d: "delete_patient asha_state ''P001'' =
          (Inr (JSONResponse 200 [(''massage'', ''Patient deleted successfully'')]), st')" and
    f: "patients_json st' = filter (\<lambda>(k, r). k \<noteq> ''P001'') (patients_json asha_state)" and
    w: "writes st' = writes asha_state + 1" and
    v: "view_patient st' ''P001'' = Inl (HTTPException 404 ''Patient not found'')"
    by blast
  from f w have "st' = \<lparr>patients_json = [], writes = 2\<rparr>"
    by (simp add: asha_state_def)
  moreover from delete_patient_removes_or_not_found [of asha_state "''P002''"] absent
  have "delete_patient asha_state ''P002'' =
       (Inl (HTTPException 404 ''Patient not found''), asha_state)"
    by blast
  ultimately show ?thesis using d v by simp
qed


section \<open>Update\<close>

lemma apply_updates_fields:
  "d_id (apply_updates r u) = d_id r"
  "d_name (apply_updates r u) = assign (d_name r) (u_name u)"
  "d_city (apply_updates r u) = assign (d_city r) (u_city u)"
  "d_age (apply_updates r u) = assign (d_age r) (u_age u)"
  "d_gender (apply_updates r u) = assign (d_gender r) (u_gender u)"
  "d_height (apply_updates r u) = assign (d_height r) (u_height u)"
  "d_weight (apply_updates r u) = assign (d_weight r) (u_weight u)"
  by (simp_all add: apply_updates_def)

lemma assign_Unset: "assign old Unset = old"
  by (simp add: assign_def)

lemma assign_Given: "assign old (Given v) = v"
  by (simp add: assign_def)

lemma assign_again: "assign old u = Some x \<Longrightarrow> assign (Some x) u = Some x"
  by (cases u) (simp_all add: assign_def)

lemma update_patient_not_found:
  "map_of (patients_json st) patient_id = None \<Longrightarrow>
     update_patient st patient_id u = (Inl (HTTPException 404 ''Patient not found''), st)"
  by (simp add: update_patient_def get_data_def)

lemma update_patient_invalid:
  assumes "map_of (patients_json st) patient_id = Some stored"
    and "Patient_init
           ((apply_updates stored u)\<lparr>d_id := Some patient_id, d_bmi := None, d_verdict := None\<rparr>)
         = Inl e"
  shows "update_patient st patient_id u = (Inl e, st)"
  using assms by (simp add: update_patient_def get_data_def Let_def)

lemma update_patient_valid:
  assumes "map_of (patients_json st) patient_id = Some stored"
    and "Patient_init
           ((apply_updates stored u)\<lparr>d_id := Some patient_id, d_bmi := None, d_verdict := None\<rparr>)
         = Inr p"
  shows "\<exists>b v. bmi p = Inr b \<and> verdict p = Inr v
           \<and> update_patient st patient_id u =
               (Inr (JSONResponse 200 [(''massage'', ''Patient updated successfully'')]),
                st\<lparr>patients_json :=
                     AList.update patient_id
                       \<lparr>d_id = None, d_name = Some (name p), d_city = Some (city p),
                        d_age = Some (age p), d_gender = Some (gender p),
                        d_height = Some (height p), d_weight = Some (weight p),
                        d_bmi = Some b, d_verdict = Some v\<rparr>
                       (patients_json st),
                   writes := writes st + 1\<rparr>)"
proof -
  from assms(2) have "0 < height p"
    by (simp add: Patient_init_eq_Inr)
  from model_dump_positive_height [OF this] obtain b v where
    "bmi p = Inr b" and "verdict p = Inr v" and
    "model_dump_exclude_id p =
       Inr \<lparr>d_id = None, d_name = Some (name p), d_city = Some (city p),
            d_age = Some (age p), d_gender = Some (gender p),
            d_height = Some (height p), d_weight = Some (weight p),
            d_bmi = Some b, d_verdict = Some v\<rparr>"
    by blast
  with assms show ?thesis
    by (simp add: update_patient_def get_data_def save_data_def Let_def)
qed

lemma update_patient_cases:
  assumes "map_of (patients_json st) patient_id = Some stored"
  obtains e where
      "Patient_init
         ((apply_updates stored u)\<lparr>d_id := Some patient_id, d_bmi := None, d_verdict := None\<rparr>)
       = Inl e"
      "update_patient st patient_id u = (Inl e, st)"
  | p b v where
      "Patient_init
         ((apply_updates stored u)\<lparr>d_id := Some patient_id, d_bmi := None, d_verdict := None\<rparr>)
       = Inr p"
      "bmi p = Inr b" "verdict p = Inr v"
      "update_patient st patient_id u =
         (Inr (JSONResponse 200 [(''massage'', ''Patient updated successfully'')]),
          st\<lparr>patients_json :=
               AList.update patient_id
                 \<lparr>d_id = None, d_name = Some (name p), d_city = Some (city p),
                  d_age = Some (age p), d_gender = Some (gender p),
                  d_height = Some (height p), d_weight = Some (weight p),
                  d_bmi = Some b, d_verdict = Some v\<rparr>
                 (patients_json st),
             writes := writes st + 1\<rparr>)"
proof (cases "Patient_init
         ((apply_updates stored u)\<lparr>d_id := Some patient_id, d_bmi := None, d_verdict := None\<rparr>)")
  case (Inl e)
  with update_patient_invalid [OF assms this] that(1) show ?thesis
    by blast
next
  case (Inr p)
  with update_patient_valid [OF assms this] that(2) show ?thesis
    by blast
qed

lemma bmi_asha_95: "bmi (asha\<lparr>weight := 95\<rparr>) = Inr (3102 / 100)"
  by code_simp

lemma verdict_asha_95: "verdict (asha\<lparr>weight := 95\<rparr>) = Inr ''Obese''"
  by code_simp

lemma update_asha_95:
  "update_patient asha_state ''P001'' weight_95 =
     (Inr (JSONResponse 200 [(''massage'', ''Patient updated successfully'')]),
      \<lparr>patients_json = [(''P001'', asha_95_stored)], writes = 2\<rparr>)"
proof -
  have m: "map_of (patients_json asha_state) ''P001'' = Some asha_stored"
    by (simp add: asha_state_def)
  have i: "Patient_init
         ((apply_updates asha_stored weight_95)\<lparr>d_id := Some ''P001'', d_bmi := None, d_verdict := None\<rparr>)
       = Inr (asha\<lparr>weight := 95\<rparr>)"
    by (simp add: Patient_init_eq_Inr apply_updates_fields assign_def weight_95_def asha_stored_def asha_def)
  from update_patient_valid [OF m i] obtain b v where
    b: "bmi (asha\<lparr>weight := 95\<rparr>) = Inr b" and v: "verdict (asha\<lparr>weight := 95\<rparr>) = Inr v" and
    u: "update_patient asha_state ''P001'' weight_95 =
               (Inr (JSONResponse 200 [(''massage'', ''Patient updated successfully'')]),
                asha_state\<lparr>patients_json :=
                     AList.update ''P001''
                       \<lparr>d_id = None, d_name = Some (name (asha\<lparr>weight := 95\<rparr>)), d_city = Some (city (asha\<lparr>weight := 95\<rparr>)),
                        d_age = Some (age (asha\<lparr>weight := 95\<rparr>)), d_gender = Some (gender (asha\<lparr>weight := 95\<rparr>)),
                        d_height = Some (height (asha\<lparr>weight := 95\<rparr>)), d_weight = Some (weight (asha\<lparr>weight := 95\<rparr>)),
                        d_bmi = Some b, d_verdict = Some v\<rparr>
                       (patients_json asha_state),
                   writes := writes asha_state + 1\<rparr>)"
    by blast
  from b v have "b = 3102 / 100" and "v = ''Obese''"
    by (simp_all add: bmi_asha_95 verdict_asha_95)
  with u show ?thesis
    by (simp add: asha_state_def asha_95_stored_def asha_def)
qed




lemma model_dump_pid: "model_dump_exclude_id (p\<lparr>pid := i\<rparr>) = model_dump_exclude_id p"
  by (simp add: model_dump_exclude_id_def bmi_def verdict_def)

lemma update_seed_empty:
  "update_patient seed_state ''P001'' empty_body =
     (Inr (JSONResponse 200 [(''massage'', ''Patient updated successfully'')]),
      \<lparr>patients_json = [(''P001'', asha_stored)], writes = 1\<rparr>)"
proof -
  have m: "map_of (patients_json seed_state) ''P001'' = Some seed_stored"
    by (simp add: seed_state_def)
  have i: "Patient_init
         ((apply_updates seed_stored empty_body)\<lparr>d_id := Some ''P001'', d_bmi := None, d_verdict := None\<rparr>)
       = Inr asha"
    by (simp add: Patient_init_eq_Inr apply_updates_fields assign_def empty_body_def seed_stored_def asha_def)
  from update_patient_valid [OF m i] obtain b v where
    b: "bmi asha = Inr b" and v: "verdict asha = Inr v" and
    u: "update_patient seed_state ''P001'' empty_body =
               (Inr (JSONResponse 200 [(''massage'', ''Patient updated successfully'')]),
                seed_state\<lparr>patients_json :=
                     AList.update ''P001''
                       \<lparr>d_id = None, d_name = Some (name asha), d_city = Some (city asha),
                        d_age = Some (age asha), d_gender = Some (gender asha),
                        d_height = Some (height asha), d_weight = Some (weight asha),
                        d_bmi = Some b, d_verdict = Some v\<rparr>
                       (patients_json seed_state),
                   writes := writes seed_state + 1\<rparr>)"
    by blast
  from b v have "b = 2286 / 100" and "v = ''Normal weight''"
    by (simp_all add: bmi_asha verdict_asha)
  with u show ?thesis
    by (simp add: seed_state_def asha_stored_def asha_def)
qed



text \<open>
  C10 (as amended). Applying the same update twice in succession leaves the collection
  as applying it once does, for every collection, id and body. An update with an empty
  body leaves a stored record unchanged when that record is the dump of a validated
  patient, as every record written by create or update is; a record that lacks bmi or
  verdict, or carries other values for them, is rewritten with the derived fields
  recomputed.
\<close>

theorem update_patient_idempotent:
  "patients_json (snd (update_patient (snd (update_patient st patient_id u)) patient_id u))
     = patients_json (snd (update_patient st patient_id u))
   \<and> (\<forall>body p r. Patient_init body = Inr p \<and> model_dump_exclude_id p = Inr r
          \<and> map_of (patients_json st) patient_id = Some r \<longrightarrow>
        update_patient st patient_id
          \<lparr>u_name = Unset, u_city = Unset, u_age = Unset, u_gender = Unset,
           u_height = Unset, u_weight = Unset\<rparr> =
          (Inr (JSONResponse 200 [(''massage'', ''Patient updated successfully'')]),
           st\<lparr>writes := writes st + 1\<rparr>))"
proof (intro conjI allI impI)
  show "patients_json (snd (update_patient (snd (update_patient st patient_id u)) patient_id u))
     = patients_json (snd (update_patient st patient_id u))"
  proof (cases "map_of (patients_json st) patient_id")
    case None
    then show ?thesis
      by (simp add: update_patient_not_found)
  next
    case (Some stored)
    then show ?thesis
    proof (cases rule: update_patient_cases [where u = u])
      case (1 e)
      then show ?thesis by simp
    next
      case (2 p b v)
      let ?r = "\<lparr>d_id = None, d_name = Some (name p), d_city = Some (city p),
                 d_age = Some (age p), d_gender = Some (gender p),
                 d_height = Some (height p), d_weight = Some (weight p),
                 d_bmi = Some b, d_verdict = Some v\<rparr>"
      let ?st1 = "st\<lparr>patients_json := AList.update patient_id ?r (patients_json st),
                     writes := writes st + 1\<rparr>"
      have found: "map_of (patients_json ?st1) patient_id = Some ?r"
        by (simp add: AList.update_conv')
      from 2(1) have again: "Patient_init
           ((apply_updates ?r u)\<lparr>d_id := Some patient_id, d_bmi := None, d_verdict := None\<rparr>)
         = Inr p"
        by (auto simp add: Patient_init_eq_Inr apply_updates_fields intro: assign_again)
      from update_patient_valid [OF found again] 2(2,3)
      have "update_patient ?st1 patient_id u =
               (Inr (JSONResponse 200 [(''massage'', ''Patient updated successfully'')]),
                ?st1\<lparr>patients_json := AList.update patient_id ?r (patients_json ?st1),
                   writes := writes ?st1 + 1\<rparr>)"
        by auto
      with 2(4) show ?thesis
        by simp
    qed
  qed
next
  fix body p r
  let ?u = "\<lparr>u_name = Unset, u_city = Unset, u_age = Unset, u_gender = Unset,
             u_height = Unset, u_weight = Unset\<rparr>"
  assume h: "Patient_init body = Inr p \<and> model_dump_exclude_id p = Inr r
          \<and> map_of (patients_json st) patient_id = Some r"
  then have found: "map_of (patients_json st) patient_id = Some r"
    by simp
  from h obtain b v where bv: "bmi p = Inr b" "verdict p = Inr v" and
    r: "r = \<lparr>d_id = None, d_name = Some (name p), d_city = Some (city p),
              d_age = Some (age p), d_gender = Some (gender p),
              d_height = Some (height p), d_weight = Some (weight p),
              d_bmi = Some b, d_verdict = Some v\<rparr>"
    using model_dump_eq_Inr by blast
  from h have "Patient_init
         ((apply_updates r ?u)\<lparr>d_id := Some patient_id, d_bmi := None, d_verdict := None\<rparr>)
       = Inr (p\<lparr>pid := patient_id\<rparr>)"
    by (simp add: Patient_init_eq_Inr apply_updates_fields assign_def r)
  from update_patient_valid [OF found this] obtain b' v' where
    "bmi (p\<lparr>pid := patient_id\<rparr>) = Inr b'" "verdict (p\<lparr>pid := patient_id\<rparr>) = Inr v'"
    and res: "update_patient st patient_id ?u =
               (Inr (JSONResponse 200 [(''massage'', ''Patient updated successfully'')]),
                st\<lparr>patients_json :=
                     AList.update patient_id
                       \<lparr>d_id = None, d_name = Some (name (p\<lparr>pid := patient_id\<rparr>)),
                        d_city = Some (city (p\<lparr>pid := patient_id\<rparr>)),
                        d_age = Some (age (p\<lparr>pid := patient_id\<rparr>)),
                        d_gender = Some (gender (p\<lparr>pid := patient_id\<rparr>)),
                        d_height = Some (height (p\<lparr>pid := patient_id\<rparr>)),
                        d_weight = Some (weight (p\<lparr>pid := patient_id\<rparr>)),
                        d_bmi = Some b', d_verdict = Some v'\<rparr>
                       (patients_json st),
                   writes := writes st + 1\<rparr>)"
    by blast
  with bv have "b' = b" and "v' = v"
    by (simp_all add: bmi_def verdict_def split: if_splits)
  with res r have "update_patient st patient_id ?u =
               (Inr (JSONResponse 200 [(''massage'', ''Patient updated successfully'')]),
                st\<lparr>patients_json := AList.update patient_id r (patients_json st),
                   writes := writes st + 1\<rparr>)"
    by simp
  with AList.update_triv [OF found]
  show "update_patient st patient_id ?u =
          (Inr (JSONResponse 200 [(''massage'', ''Patient updated successfully'')]),
           st\<lparr>writes := writes st + 1\<rparr>)"
    by simp
qed

theorem update_patient_idempotent_witness:
  "patients_json (snd (update_patient (snd (update_patient asha_state ''P001'' weight_95))
      ''P001'' weight_95)) = [(''P001'', asha_95_stored)]
   \<and> patients_json (snd (update_patient asha_state ''P001'' weight_95))
       = [(''P001'', asha_95_stored)]
   \<and> update_patient asha_state ''P001'' empty_body =
       (Inr (JSONResponse 200 [(''massage'', ''Patient updated successfully'')]),
        \<lparr>patients_json = [(''P001'', asha_stored)], writes = 2\<rparr>)"
proof -
  note inst = update_patient_idempotent [of asha_state "''P001''"]
  have once: "patients_json (snd (update_patient asha_state ''P001'' weight_95))
       = [(''P001'', asha_95_stored)]"
    by (simp add: update_asha_95)
  with inst [of weight_95] have twice:
    "patients_json (snd (update_patient (snd (update_patient asha_state ''P001'' weight_95))
      ''P001'' weight_95)) = [(''P001'', asha_95_stored)]"
    by simp
  have "Patient_init asha_body = Inr asha \<and> model_dump_exclude_id asha = Inr asha_stored
          \<and> map_of (patients_json asha_state) ''P001'' = Some asha_stored"
    by (simp add: Patient_init_asha model_dump_asha asha_state_def)
  with inst [of empty_body] have
    "update_patient asha_state ''P001''
          \<lparr>u_name = Unset, u_city = Unset, u_age = Unset, u_gender = Unset,
           u_height = Unset, u_weight = Unset\<rparr> =
          (Inr (JSONResponse 200 [(''massage'', ''Patient updated successfully'')]),
           asha_state\<lparr>writes := writes asha_state + 1\<rparr>)"
    by blast
  then have "update_patient asha_state ''P001'' empty_body =
       (Inr (JSONResponse 200 [(''massage'', ''Patient updated successfully'')]),
        \<lparr>patients_json = [(''P001'', asha_stored)], writes = 2\<rparr>)"
    by (simp add: empty_body_def asha_state_def)
  with once twice show ?thesis
    by simp
qed

text \<open>
  The claim as stated fails on a record stored without bmi and verdict: the update with
  an empty body succeeds and the stored value is no longer the one it was.
\<close>

theorem update_empty_body_counterexample:
  "map_of (patients_json seed_state) ''P001'' = Some seed_stored
   \<and> map_of (patients_json (snd (update_patient seed_state ''P001'' empty_body))) ''P001''
       = Some asha_stored
   \<and> asha_stored \<noteq> seed_stored"
proof -
  have "d_bmi asha_stored \<noteq> d_bmi seed_stored"
    by (simp add: asha_stored_def seed_stored_def)
  then have "asha_stored \<noteq> seed_stored"
    by auto
  then show ?thesis
    by (simp add: update_seed_empty) (simp add: seed_state_def)
qed

section \<open>Get by id\<close>

lemma no_id_stored_update:
  "no_id_stored al \<Longrightarrow> d_id r = None \<Longrightarrow> no_id_stored (AList.update k r al)"
  by (induction al) (auto simp: no_id_stored_def)

lemma no_id_stored_delete: "no_id_stored al \<Longrightarrow> no_id_stored (AList.delete k al)"
  by (auto simp: no_id_stored_def AList.delete_eq list_all_iff)

lemma no_id_stored_lookup: "no_id_stored al \<Longrightarrow> map_of al k = Some r \<Longrightarrow> d_id r = None"
  by (auto simp: no_id_stored_def list_all_iff dest: map_of_SomeD)

lemma no_id_stored_values: "no_id_stored al \<Longrightarrow> list_all (\<lambda>r. d_id r = None) (map snd al)"
  by (auto simp: no_id_stored_def list_all_iff)

lemma create_patient_Inr:
  assumes "create_patient st patient = (Inr resp, st')"
  shows "\<exists>b v. bmi patient = Inr b \<and> verdict patient = Inr v
           \<and> st' = st\<lparr>patients_json :=
                      AList.update (pid patient)
                        \<lparr>d_id = None, d_name = Some (name patient),
                         d_city = Some (city patient), d_age = Some (age patient),
                         d_gender = Some (gender patient),
                         d_height = Some (height patient),
                         d_weight = Some (weight patient),
                         d_bmi = Some b, d_verdict = Some v\<rparr>
                        (patients_json st),
                    writes := writes st + 1\<rparr>"
proof (cases "model_dump_exclude_id patient")
  case (Inl e)
  with assms show ?thesis
    by (simp add: create_patient_def get_data_def Let_def split: if_splits)
next
  case (Inr d)
  from model_dump_eq_Inr [OF Inr] obtain b v where
    "bmi patient = Inr b" and "verdict patient = Inr v" and
    "d = \<lparr>d_id = None, d_name = Some (name patient),
          d_city = Some (city patient), d_age = Some (age patient),
          d_gender = Some (gender patient),
          d_height = Some (height patient),
          d_weight = Some (weight patient),
          d_bmi = Some b, d_verdict = Some v\<rparr>"
    by blast
  with assms Inr show ?thesis
    by (auto simp: create_patient_def get_data_def save_data_def Let_def split: if_splits)
qed

lemma create_patient_Inl: "create_patient st patient = (Inl e, st') \<Longrightarrow> st' = st"
  by (auto simp: create_patient_def get_data_def Let_def split: if_splits sum.splits)

lemma view_patient_found:
  "map_of (patients_json st) patient_id = Some r \<Longrightarrow> view_patient st patient_id = Inr r"
  by (simp add: view_patient_def get_data_def)

lemma view_patient_absent:
  "map_of (patients_json st) patient_id = None \<Longrightarrow>
     view_patient st patient_id = Inl (HTTPException 404 ''Patient not found'')"
  by (simp add: view_patient_def get_data_def)

lemma view_patient_Inr:
  "view_patient st patient_id = Inr r \<Longrightarrow> map_of (patients_json st) patient_id = Some r"
  by (simp add: view_patient_def get_data_def split: option.splits)

text \<open>
  C5 (as amended). For every collection and id, the get-by-id handler returns the value
  stored under the id exactly as it is persisted when the id is a key of the collection,
  and fails with 404 "Patient not found" when it is not. The stored value does not carry
  the id (no stored value does once the collection is written by this program), and it
  carries bmi and verdict as the last create or update stored them.
\<close>

theorem view_patient_returns_stored_value:
  "(\<forall>r. map_of (patients_json st) patient_id = Some r \<longrightarrow> view_patient st patient_id = Inr r)
   \<and> (map_of (patients_json st) patient_id = None \<longrightarrow>
        view_patient st patient_id = Inl (HTTPException 404 ''Patient not found''))
   \<and> (no_id_stored (patients_json st) \<longrightarrow>
        (\<forall>r. view_patient st patient_id = Inr r \<longrightarrow> d_id r = None))"
  by (auto simp: view_patient_found view_patient_absent
      dest: view_patient_Inr no_id_stored_lookup)

theorem view_patient_returns_stored_value_witness:
  "view_patient asha_state ''P001'' = Inr asha_stored
   \<and> d_id asha_stored = None
   \<and> d_bmi asha_stored = Some (2286 / 100)
   \<and> d_verdict asha_stored = Some ''Normal weight''
   \<and> view_patient asha_state ''P002'' = Inl (HTTPException 404 ''Patient not found'')"
proof -
  note inst = view_patient_returns_stored_value [of asha_state]
  have "map_of (patients_json asha_state) ''P001'' = Some asha_stored"
    by (simp add: asha_state_def)
  with inst [of "''P001''"] have found: "view_patient asha_state ''P001'' = Inr asha_stored"
    by blast
  have "no_id_stored (patients_json asha_state)"
    by (simp add: no_id_stored_def asha_state_def asha_stored_def)
  with inst [of "''P001''"] found have no_id: "d_id asha_stored = None"
    by blast
  have "map_of (patients_json asha_state) ''P002'' = None"
    by (simp add: asha_state_def)
  with inst [of "''P002''"] have
    "view_patient asha_state ''P002'' = Inl (HTTPException 404 ''Patient not found'')"
    by blast
  with found no_id show ?thesis
    by (simp add: asha_stored_def)
qed

text \<open>
  The claim as stated fails: the record returned for a patient that was just created has
  no id attached.
\<close>

theorem view_patient_no_id_counterexample:
  "view_patient (snd (create_patient empty_state asha)) ''P001'' = Inr asha_stored
   \<and> d_id asha_stored \<noteq> Some ''P001''"
  by (simp add: create_asha view_patient_def get_data_def asha_state_def) (simp add: asha_stored_def)

section \<open>What is persisted\<close>

text \<open>
  C6 (as amended). Every record written by create or update holds the six input fields
  name, city, age, gender, height and weight together with the derived fields bmi and
  verdict, computed from height and weight when the record is written, and no id. A
  read returns the stored value as it is; nothing is recomputed on reading.
\<close>

theorem stored_record_carries_derived_fields:
  "(\<forall>resp st'. create_patient st patient = (Inr resp, st') \<longrightarrow>
      (\<exists>b v. bmi patient = Inr b \<and> verdict patient = Inr v
         \<and> map_of (patients_json st') (pid patient) =
             Some \<lparr>d_id = None, d_name = Some (name patient),
                   d_city = Some (city patient), d_age = Some (age patient),
                   d_gender = Some (gender patient),
                   d_height = Some (height patient),
                   d_weight = Some (weight patient),
                   d_bmi = Some b, d_verdict = Some v\<rparr>))
   \<and> (\<forall>resp st'. update_patient st patient_id u = (Inr resp, st') \<longrightarrow>
      (\<exists>p b v. bmi p = Inr b \<and> verdict p = Inr v
         \<and> map_of (patients_json st') patient_id =
             Some \<lparr>d_id = None, d_name = Some (name p), d_city = Some (city p),
                   d_age = Some (age p), d_gender = Some (gender p),
                   d_height = Some (height p), d_weight = Some (weight p),
                   d_bmi = Some b, d_verdict = Some v\<rparr>))
   \<and> (\<forall>r. map_of (patients_json st) patient_id = Some r \<longrightarrow>
        view_patient st patient_id = Inr r)"
proof (intro conjI allI impI)
  fix resp st'
  assume "create_patient st patient = (Inr resp, st')"
  from create_patient_Inr [OF this] obtain b v where
    bv: "bmi patient = Inr b" "verdict patient = Inr v" and
    st': "st' = st\<lparr>patients_json :=
                      AList.update (pid patient)
                        \<lparr>d_id = None, d_name = Some (name patient),
                         d_city = Some (city patient), d_age = Some (age patient),
                         d_gender = Some (gender patient),
                         d_height = Some (height patient),
                         d_weight = Some (weight patient),
                         d_bmi = Some b, d_verdict = Some v\<rparr>
                        (patients_json st),
                    writes := writes st + 1\<rparr>"
    by blast
  from st' have "map_of (patients_json st') (pid patient) =
             Some \<lparr>d_id = None, d_name = Some (name patient),
                   d_city = Some (city patient), d_age = Some (age patient),
                   d_gender = Some (gender patient),
                   d_height = Some (height patient),
                   d_weight = Some (weight patient),
                   d_bmi = Some b, d_verdict = Some v\<rparr>"
    by (simp add: AList.update_conv')
  with bv show "\<exists>b v. bmi patient = Inr b \<and> verdict patient = Inr v
         \<and> map_of (patients_json st') (pid patient) =
             Some \<lparr>d_id = None, d_name = Some (name patient),
                   d_city = Some (city patient), d_age = Some (age patient),
                   d_gender = Some (gender patient),
                   d_height = Some (height patient),
                   d_weight = Some (weight patient),
                   d_bmi = Some b, d_verdict = Some v\<rparr>"
    by blast
next
  fix resp st'
  assume ok: "update_patient st patient_id u = (Inr resp, st')"
  show "\<exists>p b v. bmi p = Inr b \<and> verdict p = Inr v
         \<and> map_of (patients_json st') patient_id =
             Some \<lparr>d_id = None, d_name = Some (name p), d_city = Some (city p),
                   d_age = Some (age p), d_gender = Some (gender p),
                   d_height = Some (height p), d_weight = Some (weight p),
                   d_bmi = Some b, d_verdict = Some v\<rparr>"
  proof (cases "map_of (patients_json st) patient_id")
    case None
    with ok show ?thesis
      by (simp add: update_patient_not_found)
  next
    case (Some stored)
    then show ?thesis
    proof (cases rule: update_patient_cases [where u = u])
      case (1 e)
      with ok show ?thesis by simp
    next
      case (2 p b v)
      from 2(4) ok have "map_of (patients_json st') patient_id =
             Some \<lparr>d_id = None, d_name = Some (name p), d_city = Some (city p),
                   d_age = Some (age p), d_gender = Some (gender p),
                   d_height = Some (height p), d_weight = Some (weight p),
                   d_bmi = Some b, d_verdict = Some v\<rparr>"
        by (auto simp: AList.update_conv')
      with 2(2,3) show ?thesis
        by blast
    qed
  qed
next
  fix r
  assume "map_of (patients_json st) patient_id = Some r"
  then show "view_patient st patient_id = Inr r"
    by (rule view_patient_found)
qed

theorem stored_record_carries_derived_fields_witness:
  "create_patient empty_state asha =
     (Inr (JSONResponse 201 [(''massage'', ''Patient created successfully'')]), asha_state)
   \<and> map_of (patients_json asha_state) ''P001'' = Some asha_stored
   \<and> update_patient asha_state ''P001'' weight_95 =
       (Inr (JSONResponse 200 [(''massage'', ''Patient updated successfully'')]),
        \<lparr>patients_json = [(''P001'', asha_95_stored)], writes = 2\<rparr>)
   \<and> (\<exists>p b v. bmi p = Inr b \<and> verdict p = Inr v
         \<and> Some asha_95_stored =
             Some \<lparr>d_id = None, d_name = Some (name p), d_city = Some (city p),
                   d_age = Some (age p), d_gender = Some (gender p),
                   d_height = Some (height p), d_weight = Some (weight p),
                   d_bmi = Some b, d_verdict = Some v\<rparr>)
   \<and> view_patient asha_state ''P001'' = Inr asha_stored"
proof -
  have m: "map_of (patients_json asha_state) ''P001'' = Some asha_stored"
    by (simp add: asha_state_def)
  from stored_record_carries_derived_fields [of asha_state asha "''P001''" weight_95]
    update_asha_95 m
  have "(\<exists>p b v. bmi p = Inr b \<and> verdict p = Inr v
         \<and> map_of (patients_json \<lparr>patients_json = [(''P001'', asha_95_stored)], writes = 2\<rparr>) ''P001'' =
             Some \<lparr>d_id = None, d_name = Some (name p), d_city = Some (city p),
                   d_age = Some (age p), d_gender = Some (gender p),
                   d_height = Some (height p), d_weight = Some (weight p),
                   d_bmi = Some b, d_verdict = Some v\<rparr>)
        \<and> view_patient asha_state ''P001'' = Inr asha_stored"
    by blast
  with create_asha update_asha_95 m show ?thesis
    by simp
qed

text \<open>
  The claim as stated fails: after a create the persisted value holds bmi and verdict.
\<close>

theorem stored_bmi_verdict_counterexample:
  "map_of (patients_json (snd (create_patient empty_state asha))) ''P001'' = Some asha_stored
   \<and> d_bmi asha_stored = Some (2286 / 100)
   \<and> d_verdict asha_stored = Some ''Normal weight''"
  by (simp add: create_asha asha_state_def) (simp add: asha_stored_def)

section \<open>The id is not stored\<close>

lemma update_patient_Inl: "update_patient st patient_id u = (Inl e, st') \<Longrightarrow> st' = st"
  by (auto simp: update_patient_def get_data_def Let_def split: option.splits sum.splits)

lemma no_id_stored_create:
  assumes "no_id_stored (patients_json st)"
  shows "no_id_stored (patients_json (snd (create_patient st patient)))"
proof (cases "create_patient st patient")
  case (Pair res st')
  show ?thesis
  proof (cases res)
    case (Inl e)
    with Pair assms create_patient_Inl [of st patient e st'] show ?thesis
      by simp
  next
    case (Inr resp)
    with Pair create_patient_Inr [of st patient resp st'] assms show ?thesis
      by (auto simp: no_id_stored_update)
  qed
qed

lemma no_id_stored_update_patient:
  assumes "no_id_stored (patients_json st)"
  shows "no_id_stored (patients_json (snd (update_patient st patient_id u)))"
proof (cases "map_of (patients_json st) patient_id")
  case None
  with assms show ?thesis
    by (simp add: update_patient_not_found)
next
  case (Some stored)
  then show ?thesis
  proof (cases rule: update_patient_cases [where u = u])
    case (1 e)
    with assms show ?thesis by simp
  next
    case (2 p b v)
    with assms show ?thesis
      by (simp add: no_id_stored_update)
  qed
qed

lemma no_id_stored_delete_patient:
  assumes "no_id_stored (patients_json st)"
  shows "no_id_stored (patients_json (snd (delete_patient st patient_id)))"
  using assms
  by (simp add: delete_patient_def get_data_def save_data_def Let_def no_id_stored_delete)

lemma sort_patient_values:
  assumes "sort_patient st sort_by order = Inr rs"
  shows "set rs = set (map snd (patients_json st))"
proof -
  from assms have "rs = sorted_py (\<lambda>x. get_or_0 x sort_by) (order = ''desc'')
                          (map snd (patients_json st))"
    by (auto simp: sort_patient_def get_data_def Let_def split: if_splits)
  then have "mset rs = mset (map snd (patients_json st))"
    by (simp add: sorted_py_mset)
  then show ?thesis
    by (rule mset_eq_setD)
qed

text \<open>
  C8 (as amended). If no stored value carries the key id, then none does after a create,
  an update or a delete. The update attaches the id of the path to the merged record
  before it revalidates it, and drops it again before storing. The read handlers (list,
  get by id, sort) return the stored values as they are, so their responses carry no
  id.
\<close>

theorem no_id_stored_preserved:
  assumes "no_id_stored (patients_json st)"
  shows "no_id_stored (patients_json (snd (create_patient st patient)))
       \<and> no_id_stored (patients_json (snd (update_patient st patient_id u)))
       \<and> no_id_stored (patients_json (snd (delete_patient st patient_id)))
       \<and> (\<forall>stored p. map_of (patients_json st) patient_id = Some stored
             \<and> Patient_init
                 ((apply_updates stored u)
                    \<lparr>d_id := Some patient_id, d_bmi := None, d_verdict := None\<rparr>) = Inr p
             \<longrightarrow> pid p = patient_id)
       \<and> no_id_stored (view st)
       \<and> (\<forall>r. view_patient st patient_id = Inr r \<longrightarrow> d_id r = None)
       \<and> (\<forall>rs. sort_patient st sort_by order = Inr rs \<longrightarrow> list_all (\<lambda>r. d_id r = None) rs)"
proof (intro conjI allI impI)
  show "no_id_stored (patients_json (snd (create_patient st patient)))"
    using assms by (rule no_id_stored_create)
  show "no_id_stored (patients_json (snd (update_patient st patient_id u)))"
    using assms by (rule no_id_stored_update_patient)
  show "no_id_stored (patients_json (snd (delete_patient st patient_id)))"
    using assms by (rule no_id_stored_delete_patient)
  show "no_id_stored (view st)"
    using assms by (simp add: view_def get_data_def)
next
  fix stored p
  assume "map_of (patients_json st) patient_id = Some stored
             \<and> Patient_init
                 ((apply_updates stored u)
                    \<lparr>d_id := Some patient_id, d_bmi := None, d_verdict := None\<rparr>) = Inr p"
  then show "pid p = patient_id"
    by (simp add: Patient_init_eq_Inr)
next
  fix r
  assume "view_patient st patient_id = Inr r"
  then have "map_of (patients_json st) patient_id = Some r"
    by (rule view_patient_Inr)
  with assms show "d_id r = None"
    by (rule no_id_stored_lookup)
next
  fix rs
  assume "sort_patient st sort_by order = Inr rs"
  then have "set rs = set (map snd (patients_json st))"
    by (rule sort_patient_values)
  with no_id_stored_values [OF assms] show "list_all (\<lambda>r. d_id r = None) rs"
    by (simp add: list_all_iff)
qed

theorem no_id_stored_preserved_witness:
  "no_id_stored (patients_json asha_state)
   \<and> no_id_stored (patients_json (snd (create_patient asha_state (asha\<lparr>pid := ''P002''\<rparr>))))
   \<and> patients_json (snd (update_patient asha_state ''P001'' weight_95))
       = [(''P001'', asha_95_stored)]
   \<and> no_id_stored [(''P001'', asha_95_stored)]
   \<and> no_id_stored (patients_json (snd (delete_patient asha_state ''P001'')))
   \<and> view_patient asha_state ''P001'' = Inr asha_stored
   \<and> d_id asha_stored = None"
proof -
  have inv: "no_id_stored (patients_json asha_state)"
    by (simp add: no_id_stored_def asha_state_def asha_stored_def)
  note inst = no_id_stored_preserved [OF inv, of _ "''P001''" weight_95]
  have u: "patients_json (snd (update_patient asha_state ''P001'' weight_95))
       = [(''P001'', asha_95_stored)]"
    by (simp add: update_asha_95)
  have v: "view_patient asha_state ''P001'' = Inr asha_stored"
    by (simp add: view_patient_def get_data_def asha_state_def)
  from inst [of "asha\<lparr>pid := ''P002''\<rparr>"] u v inv show ?thesis
    by auto
qed

text \<open>
  The claim as stated fails on the responses: the records that sort and list return have
  no id attached.
\<close>

theorem responses_without_id_counterexample:
  "sort_patient asha_state ''bmi'' ''asc'' = Inr [asha_stored]
   \<and> view asha_state = [(''P001'', asha_stored)]
   \<and> d_id asha_stored = None"
  by (simp add: sort_patient_def valid_fields_def get_data_def view_def sorted_py_def
      asha_state_def) (simp add: asha_stored_def)

section \<open>Static endpoints\<close>

text \<open>
  C9. GET / and GET /about return a constant object with one string entry, but its key
  is spelled massage: an object of the shape {message: string} is not what they return.
\<close>

theorem hello_about_key_is_massage:
  "hello = [(''massage'', ''Patient Management System API'')]
   \<and> about = [(''massage'', ''A fully functional API for managing patient records.'')]
   \<and> map_of hello ''message'' = None
   \<and> map_of about ''message'' = None"
  by (simp add: hello_def about_def)

end
